theory Spec2Isabelle
  imports Complex_Main
begin

section \<open>Numbers and their two-decimal rendering\<close>

text \<open>
  The component computes with JavaScript Numbers. Most of what follows reads them as
  exact reals, the reading the specification itself takes ("total functions over the
  real numbers"): rounding of the arithmetic, infinities and NaN are outside that
  reading. Which digits \<open>toFixed\<close> prints can depend on the rounding, so the
  two-dimensional sampler is given a second time in binary64 arithmetic further down,
  for the one statement that is about the printed digits of a formula. Loop counters
  are integers and are injected into the reals where the source mixes them with the
  slider values. In the exact reading \<open>Math.pow(b, 2)\<close> is \<open>b\<^sup>2\<close>, and \<open>Math.sqrt\<close>,
  \<open>Math.exp\<close>, \<open>Math.cos\<close>, \<open>Math.sin\<close>, \<open>Math.abs\<close> and \<open>Math.PI\<close> are the real
  functions and constant of the same name.
\<close>

text \<open>
  The result of \<open>Number.prototype.toFixed\<close>. Below \<open>10\<^sup>2\<^sup>1\<close> in magnitude it is a
  string in fixed notation. From \<open>10\<^sup>2\<^sup>1\<close> on the language falls back to the
  general Number-to-String conversion, whose text depends on the binary64
  representation: that branch keeps the number and not its text.
\<close>

datatype formatted = Digits string | NumberToString real

definition digit_char :: "nat \<Rightarrow> char" where
  "digit_char d = ''0123456789'' ! d"

text \<open>The decimal representation of a natural number, with no leading zeroes
  (\<open>0\<close> is \<open>''0''\<close>).\<close>

fun digits :: "nat \<Rightarrow> string" where
  "digits n = (if n < 10 then [digit_char n]
               else digits (n div 10) @ [digit_char (n mod 10)])"

declare digits.simps [simp del]

text \<open>
  \<open>x.toFixed(f)\<close> after ECMA-262 (the source calls it with \<open>f = 2\<close> only, so the
  RangeError for \<open>f > 100\<close> never arises): the sign is split off; \<open>n\<close> is the integer
  for which \<open>n / 10\<^sup>f - x\<close> is closest to zero, the larger one of two; its digits are
  padded with zeroes to \<open>f + 1\<close> places and the point is put before the last \<open>f\<close>.
\<close>

definition toFixed :: "real \<Rightarrow> nat \<Rightarrow> formatted" where
  "toFixed v f =
     (let s = (if v < 0 then ''-'' else '''');
          x = (if v < 0 then - v else v)
      in if 10 ^ 21 \<le> x then NumberToString v
         else
           let n = nat \<lfloor>x * 10 ^ f + 1 / 2\<rfloor>;
               m = digits n;
               m = (if f \<noteq> 0
                    then let k = length m;
                             m = (if k \<le> f then replicate (f + 1 - k) (CHR ''0'') @ m else m);
                             k = (if k \<le> f then f + 1 else k)
                         in take (k - f) m @ ''.'' @ drop (k - f) m
                    else m)
           in Digits (s @ m))"

section \<open>The component's state\<close>

text \<open>
  The sliders of the second version of the component (\<open>useState\<close> cells read by the
  closures below) and its mode selector. The functions of the component close over
  them; here they are explicit arguments.
\<close>

record params =
  timeValue :: real
  tensorValue :: real
  lambdaValue :: real
  warpBubbleStrength :: real
  rotationAngle :: real

datatype visualMode = Time | Tensor | Warp

section \<open>The warp metric\<close>

record warp_metric =
  shape :: real
  energyDensity :: real

definition calculateWarpMetric :: "params \<Rightarrow> real \<Rightarrow> real \<Rightarrow> warp_metric" where
  "calculateWarpMetric st x y =
     (let R = sqrt (x * x + y * y);
          sigma = 2;
          thickness = (1::real);
          shp = exp (- ((R - warpBubbleStrength st * 10) ^ 2) / (2 * sigma * sigma));
          dens = - \<bar>warpBubbleStrength st\<bar> * shp / (8 * pi)
      in \<lparr>shape = shp, energyDensity = dens\<rparr>)"

section \<open>Two-dimensional sampling\<close>

record point2D =
  point_x :: int
  point_y :: formatted

text \<open>The value \<open>y\<close> that one pass of the loop of \<open>generate2DData\<close> computes at
  the counter \<open>i\<close>, before it is formatted.\<close>

definition y2D :: "visualMode \<Rightarrow> params \<Rightarrow> int \<Rightarrow> real" where
  "y2D visualMode st i =
     (let x = real_of_int i
      in if visualMode = Warp
         then shape (calculateWarpMetric st x 0) * warpBubbleStrength st * 5
         else if visualMode = Time
         then ((x - timeValue st) ^ 2 / 10) * (if timeValue st < 0 then - 1 else 1)
              + (lambdaValue st * cos (x / 2))
         else (tensorValue st * x ^ 2 / 10) + (lambdaValue st * sin (x / 2)))"

text \<open>The record that this pass pushes: \<open>{ x, y: y.toFixed(2) }\<close>.\<close>

definition point2D_of :: "visualMode \<Rightarrow> params \<Rightarrow> int \<Rightarrow> point2D" where
  "point2D_of visualMode st i = \<lparr>point_x = i, point_y = toFixed (y2D visualMode st i) 2\<rparr>"

text \<open>The loop \<open>for (let i = -10; i <= 10; i++)\<close> with the array it pushes to.\<close>

function generate2DData_loop ::
  "visualMode \<Rightarrow> params \<Rightarrow> int \<Rightarrow> point2D list \<Rightarrow> point2D list" where
  "generate2DData_loop visualMode st i points =
     (if i \<le> 10
      then generate2DData_loop visualMode st (i + 1)
             (points @ [point2D_of visualMode st i])
      else points)"
  by pat_completeness auto
termination
  by (relation "measure (\<lambda>(visualMode, st, i, points). nat (11 - i))") auto

declare generate2DData_loop.simps [simp del]

definition generate2DData :: "visualMode \<Rightarrow> params \<Rightarrow> point2D list" where
  "generate2DData visualMode st = generate2DData_loop visualMode st (- 10) []"

section \<open>Three-dimensional sampling\<close>

text \<open>
  A point of the surface is the template string
  \<open>`${x*20},${y*20},${z*20}`\<close>. It is kept as the three numbers the template
  interpolates, in the order of the string. (The local constant \<open>resolution = 20\<close>
  of the source is never read; the factor 20 is written out at each use.)
\<close>

record point3D =
  field1 :: int
  field2 :: int
  field3 :: real

text \<open>The value \<open>z\<close> of one pass of the inner loop of \<open>generate3DData\<close>.\<close>

definition z3D :: "visualMode \<Rightarrow> params \<Rightarrow> int \<Rightarrow> int \<Rightarrow> real" where
  "z3D visualMode st i j =
     (let x = real_of_int i;
          y = real_of_int j;
          rad = rotationAngle st * pi / 180;
          rotX = x * cos rad - y * sin rad;
          rotY = x * sin rad + y * cos rad
      in if visualMode = Warp
         then shape (calculateWarpMetric st rotX rotY) * warpBubbleStrength st * 5
         else if visualMode = Time
         then (sqrt (rotX * rotX + rotY * rotY) - timeValue st) ^ 2 / 5
              + (lambdaValue st * cos (sqrt (rotX * rotX + rotY * rotY) / 2))
         else (tensorValue st * (rotX * rotX + rotY * rotY) / 5)
              + (lambdaValue st * sin (sqrt (rotX * rotX + rotY * rotY) / 2)))"

text \<open>The string that this pass pushes.\<close>

definition point3D_of :: "visualMode \<Rightarrow> params \<Rightarrow> int \<Rightarrow> int \<Rightarrow> point3D" where
  "point3D_of visualMode st i j =
     \<lparr>field1 = i * 20, field2 = j * 20, field3 = z3D visualMode st i j * 20\<rparr>"

text \<open>The two nested loops \<open>for (let i = -5; i <= 5; i++) for (let j = -5; j <= 5; j++)\<close>.\<close>

function generate3DData_inner ::
  "visualMode \<Rightarrow> params \<Rightarrow> int \<Rightarrow> int \<Rightarrow> point3D list \<Rightarrow> point3D list" where
  "generate3DData_inner visualMode st i j points =
     (if j \<le> 5
      then generate3DData_inner visualMode st i (j + 1)
             (points @ [point3D_of visualMode st i j])
      else points)"
  by pat_completeness auto
termination
  by (relation "measure (\<lambda>(visualMode, st, i, j, points). nat (6 - j))") auto

declare generate3DData_inner.simps [simp del]

function generate3DData_outer ::
  "visualMode \<Rightarrow> params \<Rightarrow> int \<Rightarrow> point3D list \<Rightarrow> point3D list" where
  "generate3DData_outer visualMode st i points =
     (if i \<le> 5
      then generate3DData_outer visualMode st (i + 1)
             (generate3DData_inner visualMode st i (- 5) points)
      else points)"
  by pat_completeness auto
termination
  by (relation "measure (\<lambda>(visualMode, st, i, points). nat (6 - i))") auto

declare generate3DData_outer.simps [simp del]

definition generate3DData :: "visualMode \<Rightarrow> params \<Rightarrow> point3D list" where
  "generate3DData visualMode st = generate3DData_outer visualMode st (- 5) []"

section \<open>The first version of the component\<close>

text \<open>Its mode selector has two values, and there are two sliders.\<close>

datatype mode_v1 = TimeMode | TensorMode

definition y_v1 :: "mode_v1 \<Rightarrow> real \<Rightarrow> real \<Rightarrow> int \<Rightarrow> real" where
  "y_v1 mode timeV tensorV i =
     (let x = real_of_int i
      in if mode = TimeMode
         then (x - timeV) ^ 2 / 10 * (if timeV < 0 then - 1 else 1)
         else tensorV * x ^ 2 / 10)"

definition point_v1 :: "mode_v1 \<Rightarrow> real \<Rightarrow> real \<Rightarrow> int \<Rightarrow> point2D" where
  "point_v1 mode timeV tensorV i = \<lparr>point_x = i, point_y = toFixed (y_v1 mode timeV tensorV i) 2\<rparr>"

function generateData_loop ::
  "mode_v1 \<Rightarrow> real \<Rightarrow> real \<Rightarrow> int \<Rightarrow> point2D list \<Rightarrow> point2D list" where
  "generateData_loop mode timeV tensorV i points =
     (if i \<le> 10
      then generateData_loop mode timeV tensorV (i + 1)
             (points @ [point_v1 mode timeV tensorV i])
      else points)"
  by pat_completeness auto
termination
  by (relation "measure (\<lambda>(mode, timeV, tensorV, i, points). nat (11 - i))") auto

declare generateData_loop.simps [simp del]

definition generateData :: "mode_v1 \<Rightarrow> real \<Rightarrow> real \<Rightarrow> point2D list" where
  "generateData mode timeV tensorV = generateData_loop mode timeV tensorV (- 10) []"

section \<open>The two-dimensional sampler in binary64 arithmetic\<close>

text \<open>
  A finite binary64 number is a real of the form \<open>n * 2\<^sup>k\<close> with \<open>|n| < 2\<^sup>5\<^sup>3\<close> and
  \<open>k \<ge> -1074\<close>. The operations \<open>+\<close>, \<open>-\<close>, \<open>*\<close> and \<open>/\<close> of the language return the
  exact result rounded to the nearest such number, ties to the even significand;
  \<open>fl\<close> is that rounding. Within the binade \<open>2\<^sup>e \<le> |v| < 2\<^sup>e\<^sup>+\<^sup>1\<close> the numbers are
  \<open>2\<^sup>e\<^sup>-\<^sup>5\<^sup>2\<close> apart, and below \<open>2\<^sup>-\<^sup>1\<^sup>0\<^sup>2\<^sup>2\<close> (the subnormal numbers) they stay
  \<open>2\<^sup>-\<^sup>1\<^sup>0\<^sup>7\<^sup>4\<close> apart. Results of magnitude \<open>2\<^sup>1\<^sup>0\<^sup>2\<^sup>4\<close> or more (Infinity), NaN and the
  sign of zero are not represented; no state within the slider ranges produces the first
  two, and \<open>toFixed\<close> prints both zeroes alike. Negation and \<open>Math.abs\<close> are exact.
\<close>

definition pow2 :: "int \<Rightarrow> real" where
  "pow2 k = (if 0 \<le> k then 2 ^ nat k else 1 / 2 ^ nat (- k))"

definition round_even :: "real \<Rightarrow> int" where
  "round_even q =
     (let f = \<lfloor>q\<rfloor>; r = q - real_of_int f
      in if r < 1 / 2 then f else if 1 / 2 < r then f + 1 else if even f then f else f + 1)"

definition binade :: "real \<Rightarrow> int" where
  "binade v = max \<lfloor>log 2 \<bar>v\<bar>\<rfloor> (- 1022)"

definition fl :: "real \<Rightarrow> real" where
  "fl v = (if v = 0 then 0
           else let u = pow2 (binade v - 52) in real_of_int (round_even (v / u)) * u)"

text \<open>
  \<open>Math.pow\<close>, \<open>Math.sqrt\<close>, \<open>Math.exp\<close>, \<open>Math.cos\<close> and \<open>Math.sin\<close> return
  approximations that the language leaves to the platform: they are parameters. The
  source raises to the literal power 2 only, so the exponent is a natural number.
  \<open>Math.PI\<close> is the binary64 number nearest to \<open>pi\<close>.
\<close>

record platform =
  Math_pow :: "real \<Rightarrow> nat \<Rightarrow> real"
  Math_sqrt :: "real \<Rightarrow> real"
  Math_exp :: "real \<Rightarrow> real"
  Math_cos :: "real \<Rightarrow> real"
  Math_sin :: "real \<Rightarrow> real"

definition Math_PI :: real where
  "Math_PI = fl pi"

text \<open>A platform whose functions return the exact result correctly rounded.\<close>

definition correctly_rounded :: platform where
  "correctly_rounded =
     \<lparr>Math_pow = (\<lambda>b n. fl (b ^ n)), Math_sqrt = (\<lambda>v. fl (sqrt v)),
      Math_exp = (\<lambda>v. fl (exp v)), Math_cos = (\<lambda>v. fl (cos v)),
      Math_sin = (\<lambda>v. fl (sin v))\<rparr>"

text \<open>
  The functions of the source again, every operation rounded. The slider values are
  binary64 numbers themselves; the definitions take any real, which includes them.
\<close>

definition calculateWarpMetric_b64 :: "platform \<Rightarrow> params \<Rightarrow> real \<Rightarrow> real \<Rightarrow> warp_metric" where
  "calculateWarpMetric_b64 M st x y =
     (let R = Math_sqrt M (fl (fl (x * x) + fl (y * y)));
          sigma = 2;
          thickness = (1::real);
          shp = Math_exp M
                  (fl (- Math_pow M (fl (R - fl (warpBubbleStrength st * 10))) 2
                       / fl (fl (2 * sigma) * sigma)));
          dens = fl (fl (- \<bar>warpBubbleStrength st\<bar> * shp) / fl (8 * Math_PI))
      in \<lparr>shape = shp, energyDensity = dens\<rparr>)"

definition y2D_b64 :: "platform \<Rightarrow> visualMode \<Rightarrow> params \<Rightarrow> int \<Rightarrow> real" where
  "y2D_b64 M visualMode st i =
     (let x = real_of_int i
      in if visualMode = Warp
         then fl (fl (shape (calculateWarpMetric_b64 M st x 0) * warpBubbleStrength st) * 5)
         else if visualMode = Time
         then fl (fl (fl (Math_pow M (fl (x - timeValue st)) 2 / 10)
                      * (if timeValue st < 0 then - 1 else 1))
                  + fl (lambdaValue st * Math_cos M (fl (x / 2))))
         else fl (fl (fl (tensorValue st * Math_pow M x 2) / 10)
                  + fl (lambdaValue st * Math_sin M (fl (x / 2)))))"

definition point2D_b64_of :: "platform \<Rightarrow> visualMode \<Rightarrow> params \<Rightarrow> int \<Rightarrow> point2D" where
  "point2D_b64_of M visualMode st i =
     \<lparr>point_x = i, point_y = toFixed (y2D_b64 M visualMode st i) 2\<rparr>"

function generate2DData_b64_loop ::
  "platform \<Rightarrow> visualMode \<Rightarrow> params \<Rightarrow> int \<Rightarrow> point2D list \<Rightarrow> point2D list" where
  "generate2DData_b64_loop M visualMode st i points =
     (if i \<le> 10
      then generate2DData_b64_loop M visualMode st (i + 1)
             (points @ [point2D_b64_of M visualMode st i])
      else points)"
  by pat_completeness auto
termination
  by (relation "measure (\<lambda>(M, visualMode, st, i, points). nat (11 - i))") auto

declare generate2DData_b64_loop.simps [simp del]

definition generate2DData_b64 :: "platform \<Rightarrow> visualMode \<Rightarrow> params \<Rightarrow> point2D list" where
  "generate2DData_b64 M visualMode st = generate2DData_b64_loop M visualMode st (- 10) []"

section \<open>Vocabulary of the output contracts\<close>

text \<open>The initial state of the component: every \<open>useState\<close> cell starts at 0.\<close>

definition defaults :: params where
  "defaults = \<lparr>timeValue = 0, tensorValue = 0, lambdaValue = 0,
                warpBubbleStrength = 0, rotationAngle = 0\<rparr>"

text \<open>The ranges that the sliders of the component allow (\<open>min\<close> and \<open>max\<close> of each
  input; the rotation angle is advanced modulo 360).\<close>

definition params_in_range :: "params \<Rightarrow> bool" where
  "params_in_range st \<longleftrightarrow>
     - 10 \<le> timeValue st \<and> timeValue st \<le> 10
     \<and> - 10 \<le> tensorValue st \<and> tensorValue st \<le> 10
     \<and> - 5 \<le> lambdaValue st \<and> lambdaValue st \<le> 5
     \<and> - 10 \<le> warpBubbleStrength st \<and> warpBubbleStrength st \<le> 10
     \<and> 0 \<le> rotationAngle st \<and> rotationAngle st < 360"

text \<open>
  A string in fixed notation with two decimals: an optional minus sign, at least one
  digit, a point, and exactly two digits.
\<close>

definition is_digit :: "char \<Rightarrow> bool" where
  "is_digit c \<longleftrightarrow> c \<in> set ''0123456789''"

definition two_decimal :: "string \<Rightarrow> bool" where
  "two_decimal s =
     (let u = (case s of [] \<Rightarrow> s | c # r \<Rightarrow> if c = CHR ''-'' then r else s);
          k = length u
      in 4 \<le> k \<and> list_all is_digit (take (k - 3) u) \<and> u ! (k - 3) = CHR ''.''
         \<and> list_all is_digit (drop (k - 2) u))"

definition is_two_decimal :: "formatted \<Rightarrow> bool" where
  "is_two_decimal y = (case y of Digits s \<Rightarrow> two_decimal s | NumberToString v \<Rightarrow> False)"

text \<open>
  What the consumer of a surface point reads from it,
  \<open>point.split(',').map(Number)\<close>: the three numbers of the string.
\<close>

definition fields :: "point3D \<Rightarrow> real list" where
  "fields pt = [real_of_int (field1 pt), real_of_int (field2 pt), field3 pt]"

section \<open>The loops in closed form\<close>

text \<open>Each loop appends, to what was pushed before, one record per remaining value of
  its counter, in ascending order.\<close>

lemma generate2DData_loop_eq:
  "generate2DData_loop m st i pts = pts @ map (point2D_of m st) [i..10]"
proof (induction m st i pts rule: generate2DData_loop.induct)
  case (1 m st i pts)
  show ?case
  proof (cases "i \<le> 10")
    case True
    then show ?thesis
      using "1.IH" by (subst generate2DData_loop.simps) (simp add: upto_rec1 [of i 10])
  next
    case False
    then show ?thesis by (subst generate2DData_loop.simps) simp
  qed
qed

lemma generate2DData_eq: "generate2DData m st = map (point2D_of m st) [-10..10]"
  by (simp add: generate2DData_def generate2DData_loop_eq)

lemma generateData_loop_eq:
  "generateData_loop mode t T i pts = pts @ map (point_v1 mode t T) [i..10]"
proof (induction mode t T i pts rule: generateData_loop.induct)
  case (1 mode t T i pts)
  show ?case
  proof (cases "i \<le> 10")
    case True
    then show ?thesis
      using "1.IH" by (subst generateData_loop.simps) (simp add: upto_rec1 [of i 10])
  next
    case False
    then show ?thesis by (subst generateData_loop.simps) simp
  qed
qed

lemma generateData_eq: "generateData mode t T = map (point_v1 mode t T) [-10..10]"
  by (simp add: generateData_def generateData_loop_eq)

lemma generate3DData_inner_eq:
  "generate3DData_inner m st i j pts = pts @ map (point3D_of m st i) [j..5]"
proof (induction m st i j pts rule: generate3DData_inner.induct)
  case (1 m st i j pts)
  show ?case
  proof (cases "j \<le> 5")
    case True
    then show ?thesis
      using "1.IH" by (subst generate3DData_inner.simps) (simp add: upto_rec1 [of j 5])
  next
    case False
    then show ?thesis by (subst generate3DData_inner.simps) simp
  qed
qed

lemma generate3DData_outer_eq:
  "generate3DData_outer m st i pts
     = pts @ concat (map (\<lambda>k. map (point3D_of m st k) [-5..5]) [i..5])"
proof (induction m st i pts rule: generate3DData_outer.induct)
  case (1 m st i pts)
  show ?case
  proof (cases "i \<le> 5")
    case True
    then show ?thesis
      using "1.IH"
      by (subst generate3DData_outer.simps) (simp add: upto_rec1 [of i 5] generate3DData_inner_eq)
  next
    case False
    then show ?thesis by (subst generate3DData_outer.simps) simp
  qed
qed

lemma generate3DData_eq:
  "generate3DData m st = concat (map (\<lambda>k. map (point3D_of m st k) [-5..5]) [-5..5])"
  by (simp add: generate3DData_def generate3DData_outer_eq)

subsection \<open>Indexing the outputs\<close>

lemma upto_nth_shift:
  assumes "lo \<le> x" "x \<le> hi"
  shows "nat (x - lo) < length [lo..hi] \<and> [lo..hi] ! nat (x - lo) = x"
  using assms nth_upto [of lo "nat (x - lo)" hi] by simp

lemma map_upto_nth:
  assumes "lo \<le> x" "x \<le> hi"
  shows "map f [lo..hi] ! nat (x - lo) = f x"
  using upto_nth_shift [OF assms] by (simp only: nth_map)

lemma generate2DData_nth:
  assumes "-10 \<le> x" "x \<le> 10"
  shows "generate2DData m st ! nat (x + 10) = point2D_of m st x"
  using map_upto_nth [OF assms, of "point2D_of m st"]
  by (simp only: generate2DData_eq diff_minus_eq_add)

lemma concat_uniform_nth:
  assumes "\<forall>xs \<in> set xss. length xs = n" "a < length xss" "b < n"
  shows "concat xss ! (a * n + b) = xss ! a ! b"
  using assms
proof (induction xss arbitrary: a)
  case Nil
  then show ?case by simp
next
  case (Cons xs xss)
  show ?case
  proof (cases a)
    case 0
    with Cons.prems show ?thesis by (simp add: nth_append)
  next
    case (Suc a')
    with Cons.prems have "concat xss ! (a' * n + b) = xss ! a' ! b"
      by (intro Cons.IH) auto
    moreover have "length xs = n" using Cons.prems by simp
    ultimately show ?thesis using Suc by (simp add: nth_append)
  qed
qed

lemma concat_uniform_length:
  "\<forall>xs \<in> set xss. length xs = n \<Longrightarrow> length (concat xss) = length xss * n"
  by (induction xss) auto

lemma generate3DData_length: "length (generate3DData m st) = 121"
  by (simp add: generate3DData_eq concat_uniform_length [where n = 11])

lemma generate3DData_nth:
  assumes "ii \<le> 10" "jj \<le> 10"
  shows "generate3DData m st ! (ii * 11 + jj) = point3D_of m st (- 5 + int ii) (- 5 + int jj)"
proof -
  let ?xss = "map (\<lambda>k. map (point3D_of m st k) [-5..5]) [-5..5]"
  have "concat ?xss ! (ii * 11 + jj) = ?xss ! ii ! jj"
    using assms by (intro concat_uniform_nth) auto
  also have "\<dots> = map (point3D_of m st (- 5 + int ii)) [-5..5] ! jj"
    using assms map_upto_nth [of "-5" "- 5 + int ii" 5 "\<lambda>k. map (point3D_of m st k) [-5..5]"]
    by (simp only: diff_minus_eq_add) simp
  also have "\<dots> = point3D_of m st (- 5 + int ii) (- 5 + int jj)"
    using assms map_upto_nth [of "-5" "- 5 + int jj" 5 "point3D_of m st (- 5 + int ii)"]
    by (simp only: diff_minus_eq_add) simp
  finally show ?thesis by (simp only: generate3DData_eq)
qed

subsection \<open>Rotation keeps the distance from the origin\<close>

lemma rot_norm:
  "(x * cos r - y * sin r) * (x * cos r - y * sin r)
     + (x * sin r + y * cos r) * (x * sin r + y * cos r)
   = x * x + y * (y::real)"
proof -
  have e: "sin r * sin r = 1 - cos r * cos r"
    using sin_cos_squared_add3 [of r] by linarith
  show ?thesis by (simp add: algebra_simps e)
qed

lemma z3D_rotation:
  "z3D m (st\<lparr>rotationAngle := a\<rparr>) i j = z3D m (st\<lparr>rotationAngle := b\<rparr>) i j"
  by (simp add: z3D_def Let_def calculateWarpMetric_def rot_norm)

section \<open>Fixed notation\<close>

lemma digit_char_is_digit: "d < 10 \<Longrightarrow> is_digit (digit_char d)"
  unfolding is_digit_def digit_char_def by (intro nth_mem) simp

lemma digits_is_digit: "list_all is_digit (digits n) \<and> digits n \<noteq> []"
proof (induction n rule: digits.induct)
  case (1 n)
  show ?case
  proof (cases "n < 10")
    case True
    then show ?thesis by (subst (1 2) digits.simps) (simp add: digit_char_is_digit)
  next
    case False
    then show ?thesis using "1.IH" by (subst (1 2) digits.simps) (simp add: digit_char_is_digit)
  qed
qed

lemma is_digit_not_minus: "is_digit c \<Longrightarrow> c \<noteq> CHR ''-''"
  by (auto simp: is_digit_def)

lemma two_decimal_join:
  assumes "list_all is_digit a" "a \<noteq> []" "list_all is_digit b" "length b = 2"
  shows "two_decimal (a @ ''.'' @ b)" and "two_decimal (''-'' @ a @ ''.'' @ b)"
proof -
  obtain c r where a: "a = c # r" using assms(2) by (cases a) auto
  then have c: "c \<noteq> CHR ''-''" using assms(1) by (simp add: is_digit_not_minus)
  have k: "length (a @ ''.'' @ b) - 3 = length a" "length (a @ ''.'' @ b) - 2 = Suc (length a)"
    using assms(4) by simp_all
  have body: "4 \<le> length (a @ ''.'' @ b) \<and> list_all is_digit (take (length (a @ ''.'' @ b) - 3) (a @ ''.'' @ b))
      \<and> (a @ ''.'' @ b) ! (length (a @ ''.'' @ b) - 3) = CHR ''.''
      \<and> list_all is_digit (drop (length (a @ ''.'' @ b) - 2) (a @ ''.'' @ b))"
    unfolding k using assms a by (simp add: nth_append)
  show "two_decimal (a @ ''.'' @ b)"
    using body c unfolding two_decimal_def Let_def a by simp
  show "two_decimal (''-'' @ a @ ''.'' @ b)"
    using body unfolding two_decimal_def Let_def by simp
qed

lemma toFixed_two_decimal:
  assumes "\<bar>v\<bar> < 10 ^ 21"
  shows "is_two_decimal (toFixed v 2)"
proof -
  define n where "n = nat \<lfloor>\<bar>v\<bar> * 10 ^ 2 + 1 / 2\<rfloor>"
  define m where "m = (if length (digits n) \<le> 2
                       then replicate (2 + 1 - length (digits n)) (CHR ''0'') @ digits n
                       else digits n)"
  define k where "k = (if length (digits n) \<le> 2 then 2 + 1 else length (digits n))"
  have len: "length m = k" "3 \<le> k" by (auto simp: m_def k_def)
  have dig: "list_all is_digit m"
    using digits_is_digit [of n] by (auto simp: m_def is_digit_def list_all_iff)
  have a: "list_all is_digit (take (k - 2) m)" "take (k - 2) m \<noteq> []"
    using dig len by (auto simp: list_all_iff dest: in_set_takeD)
  have b: "list_all is_digit (drop (k - 2) m)" "length (drop (k - 2) m) = 2"
    using dig len by (auto simp: list_all_iff dest: in_set_dropD)
  have abs: "(if v < 0 then - v else v) = \<bar>v\<bar>" by simp
  have "toFixed v 2 = Digits ((if v < 0 then ''-'' else '''') @ take (k - 2) m @ ''.'' @ drop (k - 2) m)"
    using assms unfolding toFixed_def Let_def abs n_def [symmetric]
    by (simp add: m_def k_def n_def)
  then show ?thesis
    using two_decimal_join [OF a b] by (simp add: is_two_decimal_def)
qed

lemma shape_bounds: "0 < shape (calculateWarpMetric st x y) \<and> shape (calculateWarpMetric st x y) \<le> 1"
  by (simp add: calculateWarpMetric_def Let_def)

lemma abs_sum_bound:
  fixes q c :: real
  assumes "0 \<le> q" "q \<le> 400" "\<bar>c\<bar> \<le> 5"
  shows "\<bar>q / 10 * (if b then - 1 else 1) + c\<bar> \<le> 1000"
  using assms by (auto simp: abs_le_iff)

lemma abs_scale_bound:
  fixes a :: real
  assumes "\<bar>a\<bar> \<le> 10"
  shows "\<bar>a * 5\<bar> \<le> 1000"
  using assms by (auto simp: abs_le_iff)

lemma y2D_bound:
  assumes "params_in_range st" "- 10 \<le> i" "i \<le> 10"
  shows "\<bar>y2D m st i\<bar> < 10 ^ 21"
proof -
  let ?x = "real_of_int i"
  have x: "\<bar>?x\<bar> \<le> 10" using assms(2,3) by simp
  have r: "\<bar>timeValue st\<bar> \<le> 10" "\<bar>tensorValue st\<bar> \<le> 10" "\<bar>lambdaValue st\<bar> \<le> 5"
    "\<bar>warpBubbleStrength st\<bar> \<le> 10"
    using assms(1) by (auto simp: params_in_range_def)
  have lc: "\<bar>lambdaValue st * cos (?x / 2)\<bar> \<le> 5"
    using r(3) abs_cos_le_one [of "?x / 2"] mult_mono [of "\<bar>lambdaValue st\<bar>" 5 "\<bar>cos (?x / 2)\<bar>" 1]
    by (simp add: abs_mult)
  have ls: "\<bar>lambdaValue st * sin (?x / 2)\<bar> \<le> 5"
    using r(3) abs_sin_le_one [of "?x / 2"] mult_mono [of "\<bar>lambdaValue st\<bar>" 5 "\<bar>sin (?x / 2)\<bar>" 1]
    by (simp add: abs_mult)
  have x2: "?x\<^sup>2 \<le> 100"
    using x power_mono [of "\<bar>?x\<bar>" 10 2] by simp
  have xt: "(?x - timeValue st)\<^sup>2 \<le> 400"
  proof -
    have "\<bar>?x - timeValue st\<bar> \<le> 20" using x r(1) by linarith
    then show ?thesis using power_mono [of "\<bar>?x - timeValue st\<bar>" 20 2] by simp
  qed
  have tx: "\<bar>tensorValue st * ?x\<^sup>2\<bar> \<le> 1000"
    using r(2) x2 mult_mono [of "\<bar>tensorValue st\<bar>" 10 "?x\<^sup>2" 100] by (simp add: abs_mult)
  have ws: "\<bar>shape (calculateWarpMetric st ?x 0) * warpBubbleStrength st\<bar> \<le> 10"
    using shape_bounds [of st ?x 0] r(4)
      mult_mono [of "shape (calculateWarpMetric st ?x 0)" 1 "\<bar>warpBubbleStrength st\<bar>" 10]
    by (simp add: abs_mult)
  have xt0: "0 \<le> (?x - timeValue st)\<^sup>2" by simp
  have "\<bar>y2D m st i\<bar> \<le> 1000"
  proof (cases m)
    case Time
    then show ?thesis
      using abs_sum_bound [OF xt0 xt lc, of "timeValue st < 0"] by (simp add: y2D_def Let_def)
  next
    case Tensor
    then show ?thesis using tx ls by (simp add: y2D_def Let_def abs_le_iff)
  next
    case Warp
    then have "y2D m st i = shape (calculateWarpMetric st ?x 0) * warpBubbleStrength st * 5"
      by (simp add: y2D_def Let_def)
    then show ?thesis using abs_scale_bound [OF ws] by (simp only:)
  qed
  then show ?thesis by simp
qed

section \<open>Evaluating the rounding\<close>

lemma pow2_powr: "pow2 k = 2 powr real_of_int k"
  by (simp add: pow2_def powr_int)

lemma pow2_pos: "0 < pow2 k"
  by (simp add: pow2_def)

lemma binade_eq:
  assumes "pow2 e \<le> \<bar>v\<bar>" "\<bar>v\<bar> < pow2 (e + 1)" "- 1022 \<le> e"
  shows "binade v = e"
proof -
  have pos: "0 < \<bar>v\<bar>" using assms(1) pow2_pos [of e] by linarith
  have "\<lfloor>log 2 \<bar>v\<bar>\<rfloor> = e"
    using assms(1,2) pos by (simp add: floor_log_eq_powr_iff pow2_powr)
  with assms(3) show ?thesis by (simp add: binade_def)
qed

lemma fl_eval:
  assumes "pow2 e \<le> \<bar>v\<bar>" "\<bar>v\<bar> < pow2 (e + 1)" "- 1022 \<le> e"
  shows "fl v = real_of_int (round_even (v / pow2 (e - 52))) * pow2 (e - 52)"
proof -
  have "v \<noteq> 0" using assms(1) pow2_pos [of e] by auto
  then show ?thesis by (simp add: fl_def binade_eq [OF assms] Let_def)
qed

lemma fl_zero: "fl 0 = 0"
  by (simp add: fl_def)

subsection \<open>The binary64 loop in closed form\<close>

lemma generate2DData_b64_loop_eq:
  "generate2DData_b64_loop M m st i pts = pts @ map (point2D_b64_of M m st) [i..10]"
proof (induction M m st i pts rule: generate2DData_b64_loop.induct)
  case (1 M m st i pts)
  show ?case
  proof (cases "i \<le> 10")
    case True
    then show ?thesis
      using "1.IH" by (subst generate2DData_b64_loop.simps) (simp add: upto_rec1 [of i 10])
  next
    case False
    then show ?thesis by (subst generate2DData_b64_loop.simps) simp
  qed
qed

lemma generate2DData_b64_eq:
  "generate2DData_b64 M m st = map (point2D_b64_of M m st) [-10..10]"
  by (simp add: generate2DData_b64_def generate2DData_b64_loop_eq)

lemma generate2DData_b64_nth:
  assumes "-10 \<le> x" "x \<le> 10"
  shows "generate2DData_b64 M m st ! nat (x + 10) = point2D_b64_of M m st x"
  using map_upto_nth [OF assms, of "point2D_b64_of M m st"]
  by (simp only: generate2DData_b64_eq diff_minus_eq_add)

section \<open>The warp metric: closed form\<close>

text \<open>
  Claim C2. For all reals \<open>x\<close>, \<open>y\<close> and every warp strength \<open>W\<close>, the warp metric has
  \<open>shape = exp (- (R - 10 W)\<^sup>2 / 8)\<close> with \<open>R = sqrt (x\<^sup>2 + y\<^sup>2)\<close> and
  \<open>energyDensity = - |W| shape / (8 pi)\<close>; at \<open>W = 0\<close> the origin has shape 1 and
  energy density 0.
\<close>

theorem warpMetric_closed_form:
  "shape (calculateWarpMetric st x y)
     = exp (- (sqrt (x\<^sup>2 + y\<^sup>2) - 10 * warpBubbleStrength st)\<^sup>2 / 8)
   \<and> energyDensity (calculateWarpMetric st x y)
     = - \<bar>warpBubbleStrength st\<bar> * shape (calculateWarpMetric st x y) / (8 * pi)
   \<and> shape (calculateWarpMetric (st\<lparr>warpBubbleStrength := 0\<rparr>) 0 0) = 1
   \<and> energyDensity (calculateWarpMetric (st\<lparr>warpBubbleStrength := 0\<rparr>) 0 0) = 0"
  by (simp add: calculateWarpMetric_def Let_def power2_eq_square mult.commute)

section \<open>Two-dimensional sampling: the claims\<close>

text \<open>
  Claim C1, as the specification states it, makes the Time-mode \<open>y\<close> at every grid
  coordinate the two-decimal formatting of \<open>sign t * (x - t)\<^sup>2 / 10 + lambda * cos (x / 2)\<close>.
  At \<open>t = 0.5\<close>, \<open>lambda = 0\<close> and \<open>x = 5\<close> that value is 2.025, which formats to
  \<open>"2.03"\<close>. The source divides 20.25 by 10 in binary64; the quotient lies just below
  2.025 and the record reads \<open>"2.02"\<close>.
\<close>

theorem sample2D_time_prints_binary64_digits:
  "generate2DData_b64 correctly_rounded Time
       \<lparr>timeValue = 1 / 2, tensorValue = 0, lambdaValue = 0,
        warpBubbleStrength = 0, rotationAngle = 0\<rparr> ! 15
     = \<lparr>point_x = 5, point_y = Digits ''2.02''\<rparr>
   \<and> toFixed (1 * (5 - 1 / 2)\<^sup>2 / 10 + 0 * cos (5 / 2)) 2 = Digits ''2.03''"
proof -
  have a: "fl (9 / 2) = 9 / 2"
    using fl_eval [of 2 "9 / 2"] by (simp add: pow2_def round_even_def Let_def)
  have b: "fl (81 / 4) = 81 / 4"
    using fl_eval [of 4 "81 / 4"] by (simp add: pow2_def round_even_def Let_def)
  have c: "fl (81 / 40) = 4559894622712627 / 2251799813685248"
    using fl_eval [of 1 "81 / 40"] by (simp add: pow2_def round_even_def Let_def)
  have d: "fl (4559894622712627 / 2251799813685248) = 4559894622712627 / 2251799813685248"
    using fl_eval [of 1 "4559894622712627 / 2251799813685248"]
    by (simp add: pow2_def round_even_def Let_def)
  have y: "y2D_b64 correctly_rounded Time
       \<lparr>timeValue = 1 / 2, tensorValue = 0, lambdaValue = 0,
        warpBubbleStrength = 0, rotationAngle = 0\<rparr> 5 = 4559894622712627 / 2251799813685248"
    by (simp add: y2D_b64_def correctly_rounded_def Let_def fl_zero power2_eq_square a b c d)
  have p: "toFixed (4559894622712627 / 2251799813685248) 2 = Digits ''2.02''"
    by (simp add: toFixed_def Let_def digits.simps digit_char_def)
  have q: "toFixed (1 * (5 - 1 / 2)\<^sup>2 / 10 + 0 * cos (5 / 2)) 2 = Digits ''2.03''"
    by (simp add: toFixed_def Let_def digits.simps digit_char_def power2_eq_square)
  have "generate2DData_b64 correctly_rounded Time
       \<lparr>timeValue = 1 / 2, tensorValue = 0, lambdaValue = 0,
        warpBubbleStrength = 0, rotationAngle = 0\<rparr> ! nat (5 + 10)
     = point2D_b64_of correctly_rounded Time
       \<lparr>timeValue = 1 / 2, tensorValue = 0, lambdaValue = 0,
        warpBubbleStrength = 0, rotationAngle = 0\<rparr> 5"
    by (rule generate2DData_b64_nth) simp_all
  then have "generate2DData_b64 correctly_rounded Time
       \<lparr>timeValue = 1 / 2, tensorValue = 0, lambdaValue = 0,
        warpBubbleStrength = 0, rotationAngle = 0\<rparr> ! 15
     = \<lparr>point_x = 5, point_y = Digits ''2.02''\<rparr>"
    by (simp add: point2D_b64_of_def y p)
  with q show ?thesis by (rule conjI [rotated])
qed

text \<open>
  Claim C1, amended. In Time mode, for every state within the slider ranges and every
  grid coordinate \<open>x\<close> from -10 to 10, the record for \<open>x\<close> has \<open>y\<close> equal to
  \<open>toFixed(2)\<close> of the binary64 value of \<open>((x - t)\<^sup>2 / 10) * sign t + lambda * cos (x / 2)\<close>,
  every operation rounded to nearest and \<open>Math.pow\<close>, \<open>Math.cos\<close> as the platform returns
  them, where \<open>sign t\<close> is -1 for \<open>t < 0\<close> and +1 otherwise, so that \<open>sign 0 = +1\<close>.
\<close>

theorem sample2D_time_binary64:
  assumes "params_in_range st" and "- 10 \<le> x" and "x \<le> 10"
  shows "generate2DData_b64 M Time st ! nat (x + 10)
     = \<lparr>point_x = x,
        point_y = toFixed
          (fl (fl (fl (Math_pow M (fl (real_of_int x - timeValue st)) 2 / 10)
                   * (if timeValue st < 0 then - 1 else 1))
               + fl (lambdaValue st * Math_cos M (fl (real_of_int x / 2))))) 2\<rparr>"
  using generate2DData_b64_nth [OF assms(2,3), of M Time st]
  by (simp add: point2D_b64_of_def y2D_b64_def Let_def)

theorem sample2D_time_binary64_witness:
  "params_in_range \<lparr>timeValue = - 2, tensorValue = 0, lambdaValue = 1,
        warpBubbleStrength = 0, rotationAngle = 0\<rparr>
   \<and> (- 10::int) \<le> 0 \<and> (0::int) \<le> 10
   \<and> generate2DData_b64 correctly_rounded Time
        \<lparr>timeValue = - 2, tensorValue = 0, lambdaValue = 1,
         warpBubbleStrength = 0, rotationAngle = 0\<rparr> ! 10
       = \<lparr>point_x = 0, point_y = Digits ''0.60''\<rparr>"
proof -
  have a: "fl 2 = 2"
    using fl_eval [of 1 2] by (simp add: pow2_def round_even_def Let_def)
  have b: "fl 4 = 4"
    using fl_eval [of 2 4] by (simp add: pow2_def round_even_def Let_def)
  have c: "fl (2 / 5) = 3602879701896397 / 9007199254740992"
    using fl_eval [of "- 2" "2 / 5"] by (simp add: pow2_def round_even_def Let_def)
  have d: "fl (- (3602879701896397 / 9007199254740992)) = - (3602879701896397 / 9007199254740992)"
    using fl_eval [of "- 2" "- (3602879701896397 / 9007199254740992)"]
    by (simp add: pow2_def round_even_def Let_def)
  have e: "fl 1 = 1"
    using fl_eval [of 0 1] by (simp add: pow2_def round_even_def Let_def)
  have f: "fl (5404319552844595 / 9007199254740992) = 5404319552844595 / 9007199254740992"
    using fl_eval [of "- 1" "5404319552844595 / 9007199254740992"]
    by (simp add: pow2_def round_even_def Let_def)
  have p: "toFixed (5404319552844595 / 9007199254740992) 2 = Digits ''0.60''"
    by (simp add: toFixed_def Let_def digits.simps digit_char_def)
  have "toFixed
          (fl (fl (fl (Math_pow correctly_rounded (fl (real_of_int 0 - (- 2))) 2 / 10) * (- 1))
               + fl (1 * Math_cos correctly_rounded (fl (real_of_int 0 / 2))))) 2 = Digits ''0.60''"
    by (simp add: correctly_rounded_def fl_zero a b c d e f p)
  then show ?thesis
    using sample2D_time_binary64 [of "\<lparr>timeValue = - 2, tensorValue = 0, lambdaValue = 1,
         warpBubbleStrength = 0, rotationAngle = 0\<rparr>" 0 correctly_rounded]
    by (simp add: params_in_range_def)
qed

text \<open>
  Claim C5. For every state and mode the two-dimensional sampler returns 21 records;
  their \<open>x\<close> fields are the integers from -10 to 10 in strictly ascending order; each
  \<open>y\<close> field is the value of the mode's formula under \<open>toFixed(2)\<close>, which for a state
  within the slider ranges is a string in fixed notation with two decimals.
\<close>

theorem sample2D_output_contract:
  "length (generate2DData m st) = 21
   \<and> map point_x (generate2DData m st)
       = [- 10, - 9, - 8, - 7, - 6, - 5, - 4, - 3, - 2, - 1, 0, 1, 2, 3, 4, 5, 6, 7, 8, 9, 10]
   \<and> sorted_wrt (<) (map point_x (generate2DData m st))
   \<and> map point_y (generate2DData m st) = map (\<lambda>x. toFixed (y2D m st x) 2) [- 10..10]
   \<and> (params_in_range st \<longrightarrow> list_all (\<lambda>pt. is_two_decimal (point_y pt)) (generate2DData m st))"
proof -
  have xs: "map point_x (generate2DData m st) = [- 10..10]"
    by (simp only: generate2DData_eq map_map o_def point2D_of_def point2D.simps map_ident)
  have ys: "map point_y (generate2DData m st) = map (\<lambda>x. toFixed (y2D m st x) 2) [- 10..10]"
    by (simp only: generate2DData_eq map_map o_def point2D_of_def point2D.simps)
  have enum: "[- 10..10::int] = [- 10, - 9, - 8, - 7, - 6, - 5, - 4, - 3, - 2, - 1, 0, 1, 2, 3, 4, 5, 6, 7, 8, 9, 10]"
    by (simp add: upto_rec1)
  have fmt: "list_all (\<lambda>pt. is_two_decimal (point_y pt)) (generate2DData m st)"
    if "params_in_range st"
    unfolding generate2DData_eq list_all_iff
  proof
    fix pt assume "pt \<in> set (map (point2D_of m st) [- 10..10])"
    then have "pt \<in> point2D_of m st ` {- 10..10}" by (simp only: set_map set_upto)
    then obtain i where i: "pt = point2D_of m st i" "i \<in> {- 10..10}" by (rule imageE)
    then have "- 10 \<le> i" "i \<le> 10" by simp_all
    from toFixed_two_decimal [OF y2D_bound [OF that this]] i(1)
    show "is_two_decimal (point_y pt)" by (simp add: point2D_of_def)
  qed
  have len: "length (generate2DData m st) = 21"
    by (simp add: generate2DData_eq)
  have srt: "sorted_wrt (<) (map point_x (generate2DData m st))"
    unfolding xs by simp
  show ?thesis using len xs srt ys fmt unfolding enum by blast
qed

theorem sample2D_output_contract_witness:
  "params_in_range defaults
   \<and> list_all (\<lambda>pt. is_two_decimal (point_y pt)) (generate2DData Time defaults)
   \<and> map point_y (generate2DData Time defaults)
       = map (\<lambda>s. Digits s) [''10.00'', ''8.10'', ''6.40'', ''4.90'', ''3.60'', ''2.50'', ''1.60'', ''0.90'', ''0.40'', ''0.10'',
          ''0.00'', ''0.10'', ''0.40'', ''0.90'', ''1.60'', ''2.50'', ''3.60'', ''4.90'', ''6.40'', ''8.10'', ''10.00'']"
  using sample2D_output_contract [of Time defaults]
  by (simp add: params_in_range_def defaults_def y2D_def Let_def upto_rec1 toFixed_def digits.simps digit_char_def)

text \<open>
  Claim C6. In Time mode with \<open>T = 0\<close> and \<open>lambda = 0\<close>, the record at the grid point
  \<open>x = t\<close> has \<open>y = "0.00"\<close>; with \<open>t = 5\<close> the record at \<open>x = 5\<close> has \<open>y = "0.00"\<close>
  and the record at \<open>x = -10\<close> has \<open>y = "22.50"\<close>.
\<close>

theorem sample2D_time_vertex:
  "(- 10 \<le> x \<and> x \<le> 10 \<longrightarrow>
      generate2DData Time \<lparr>timeValue = real_of_int x, tensorValue = 0, lambdaValue = 0,
         warpBubbleStrength = w, rotationAngle = r\<rparr> ! nat (x + 10)
        = \<lparr>point_x = x, point_y = Digits ''0.00''\<rparr>)
   \<and> generate2DData Time \<lparr>timeValue = 5, tensorValue = 0, lambdaValue = 0,
         warpBubbleStrength = w, rotationAngle = r\<rparr> ! 15
        = \<lparr>point_x = 5, point_y = Digits ''0.00''\<rparr>
   \<and> generate2DData Time \<lparr>timeValue = 5, tensorValue = 0, lambdaValue = 0,
         warpBubbleStrength = w, rotationAngle = r\<rparr> ! 0
        = \<lparr>point_x = - 10, point_y = Digits ''22.50''\<rparr>"
proof -
  have z: "toFixed 0 2 = Digits ''0.00''"
    by (simp add: toFixed_def Let_def digits.simps digit_char_def)
  have a: "generate2DData Time \<lparr>timeValue = real_of_int x, tensorValue = 0, lambdaValue = 0,
         warpBubbleStrength = w, rotationAngle = r\<rparr> ! nat (x + 10)
        = \<lparr>point_x = x, point_y = Digits ''0.00''\<rparr>" if "- 10 \<le> x" "x \<le> 10"
    using generate2DData_nth [OF that] by (simp add: point2D_of_def y2D_def Let_def z)
  have b: "generate2DData Time \<lparr>timeValue = 5, tensorValue = 0, lambdaValue = 0,
         warpBubbleStrength = w, rotationAngle = r\<rparr> ! 15
        = \<lparr>point_x = 5, point_y = Digits ''0.00''\<rparr>"
    using generate2DData_nth [of 5] by (simp add: point2D_of_def y2D_def Let_def z)
  have c: "generate2DData Time \<lparr>timeValue = 5, tensorValue = 0, lambdaValue = 0,
         warpBubbleStrength = w, rotationAngle = r\<rparr> ! 0
        = \<lparr>point_x = - 10, point_y = Digits ''22.50''\<rparr>"
    using generate2DData_nth [of "- 10"]
    by (simp add: point2D_of_def y2D_def Let_def toFixed_def digits.simps digit_char_def)
  from a b c show ?thesis by blast
qed

theorem sample2D_time_vertex_witness:
  "(- 10::int) \<le> - 3 \<and> (- 3::int) \<le> 10
   \<and> generate2DData Time \<lparr>timeValue = - 3, tensorValue = 0, lambdaValue = 0,
         warpBubbleStrength = 0, rotationAngle = 0\<rparr> ! 7
        = \<lparr>point_x = - 3, point_y = Digits ''0.00''\<rparr>"
  using sample2D_time_vertex [of "- 3" 0 0] by simp

text \<open>
  Claim C7. In Tensor mode with \<open>lambda = 0\<close> the output is even in the grid coordinate:
  for every tensor value and every \<open>x\<close> from -10 to 10, the \<open>y\<close> at \<open>x\<close> is the \<open>y\<close>
  at \<open>-x\<close>.
\<close>

theorem sample2D_tensor_even:
  assumes "- 10 \<le> x" and "x \<le> 10" and "lambdaValue st = 0"
  shows "point_y (generate2DData Tensor st ! nat (x + 10))
       = point_y (generate2DData Tensor st ! nat (- x + 10))"
proof -
  have "- 10 \<le> - x" "- x \<le> 10" using assms by simp_all
  from generate2DData_nth [OF assms(1,2), of Tensor st] generate2DData_nth [OF this, of Tensor st]
  show ?thesis using assms(3) by (simp add: point2D_of_def y2D_def Let_def)
qed

theorem sample2D_tensor_even_witness:
  "(- 10::int) \<le> 2 \<and> (2::int) \<le> 10
   \<and> lambdaValue \<lparr>timeValue = 1, tensorValue = 3, lambdaValue = 0,
         warpBubbleStrength = 0, rotationAngle = 0\<rparr> = 0
   \<and> point_y (generate2DData Tensor \<lparr>timeValue = 1, tensorValue = 3, lambdaValue = 0,
         warpBubbleStrength = 0, rotationAngle = 0\<rparr> ! 12)
     = point_y (generate2DData Tensor \<lparr>timeValue = 1, tensorValue = 3, lambdaValue = 0,
         warpBubbleStrength = 0, rotationAngle = 0\<rparr> ! 8)"
  using sample2D_tensor_even [of 2 "\<lparr>timeValue = 1, tensorValue = 3, lambdaValue = 0,
         warpBubbleStrength = 0, rotationAngle = 0\<rparr>"]
  by simp

section \<open>Three-dimensional sampling: the claims\<close>

text \<open>
  Claim C3, as the specification states it, asks that each record of the
  three-dimensional sampler expose the raw triple \<open>(i, j, z)\<close> as well as the scaled
  triple \<open>(20 i, 20 j, 20 z)\<close>. The record is one string of three numbers. In the initial
  state and Time mode, the first record, for the grid point \<open>(-5, -5)\<close> where \<open>z = 10\<close>,
  reads \<open>-100, -100, 200\<close>: neither -5 nor 10 is among its numbers.
\<close>

theorem sample3D_record_lacks_raw_triple:
  "z3D Time defaults (- 5) (- 5) = 10
   \<and> fields (generate3DData Time defaults ! 0) = [- 100, - 100, 200]
   \<and> - 5 \<notin> set (fields (generate3DData Time defaults ! 0))
   \<and> 10 \<notin> set (fields (generate3DData Time defaults ! 0))"
proof -
  have z: "z3D Time defaults (- 5) (- 5) = 10"
    by (simp add: z3D_def defaults_def Let_def)
  have "generate3DData Time defaults ! (0 * 11 + 0) = point3D_of Time defaults (- 5 + int 0) (- 5 + int 0)"
    by (rule generate3DData_nth) simp_all
  then have "fields (generate3DData Time defaults ! 0) = [- 100, - 100, 200]"
    by (simp add: fields_def point3D_of_def z)
  with z show ?thesis by simp
qed

text \<open>
  Claim C3, amended. For every state and mode, the records of the three-dimensional
  sampler carry the scaled triple alone: read in order, they are the three numbers
  \<open>20 i, 20 j, 20 z\<close> for \<open>i\<close> from -5 to 5 and, within each \<open>i\<close>, \<open>j\<close> from -5 to 5.
\<close>

theorem sample3D_records_scaled:
  "map fields (generate3DData m st)
     = concat (map (\<lambda>i. map (\<lambda>j. [real_of_int i * 20, real_of_int j * 20, z3D m st i j * 20])
                             [- 5..5]) [- 5..5])"
  by (simp only: generate3DData_eq map_concat map_map o_def fields_def point3D_of_def
        point3D.simps of_int_mult of_int_numeral)

text \<open>
  Claim C4. For every state and mode the three-dimensional sampler returns 121 records
  in row-major order: the record at index \<open>11 * i_index + j_index\<close>, with both indices
  at most 10, is the one computed for the grid coordinates \<open>i = -5 + i_index\<close> and
  \<open>j = -5 + j_index\<close>.
\<close>

theorem sample3D_row_major:
  assumes "i_index \<le> 10" and "j_index \<le> 10"
  shows "length (generate3DData m st) = 121
     \<and> generate3DData m st ! (i_index * 11 + j_index)
         = \<lparr>field1 = (- 5 + int i_index) * 20, field2 = (- 5 + int j_index) * 20,
            field3 = z3D m st (- 5 + int i_index) (- 5 + int j_index) * 20\<rparr>"
  using generate3DData_nth [OF assms, of m st]
  by (simp only: generate3DData_length point3D_of_def simp_thms)

theorem sample3D_row_major_witness:
  "(2::nat) \<le> 10 \<and> (3::nat) \<le> 10
   \<and> generate3DData Tensor \<lparr>timeValue = 0, tensorValue = 5, lambdaValue = 0,
         warpBubbleStrength = 0, rotationAngle = 0\<rparr> ! 25
       = \<lparr>field1 = - 60, field2 = - 40, field3 = 260\<rparr>"
  using sample3D_row_major [of 2 3 Tensor "\<lparr>timeValue = 0, tensorValue = 5, lambdaValue = 0,
         warpBubbleStrength = 0, rotationAngle = 0\<rparr>"]
  by (simp add: z3D_def Let_def)

text \<open>
  Claim C8. In exact real arithmetic the output of the three-dimensional sampler does not
  depend on the rotation angle: for every mode, state and pair of angles the output
  sequences are equal. The first two numbers of a record are the unrotated \<open>20 i\<close> and
  \<open>20 j\<close>, and \<open>z\<close> reads the rotated coordinates through the sum of their squares only.
\<close>

theorem sample3D_rotation_independent:
  "generate3DData m (st\<lparr>rotationAngle := a\<rparr>) = generate3DData m (st\<lparr>rotationAngle := b\<rparr>)"
proof -
  have "point3D_of m (st\<lparr>rotationAngle := a\<rparr>) = point3D_of m (st\<lparr>rotationAngle := b\<rparr>)"
    by (intro ext) (simp only: point3D_of_def z3D_rotation [where a = a and b = b])
  then show ?thesis by (simp only: generate3DData_eq)
qed

section \<open>Claims relating two runs\<close>

text \<open>
  Claim C9. In Warp mode the output does not depend on time, tensor or lambda: two states
  with the same warp strength give the same two-dimensional output, and the same
  three-dimensional output when they also have the same rotation angle.
\<close>

theorem warp_mode_ignores_other_sliders:
  "(warpBubbleStrength p = warpBubbleStrength q \<longrightarrow>
      generate2DData Warp p = generate2DData Warp q)
   \<and> (warpBubbleStrength p = warpBubbleStrength q \<and> rotationAngle p = rotationAngle q \<longrightarrow>
      generate3DData Warp p = generate3DData Warp q)"
proof -
  have a: "point2D_of Warp p = point2D_of Warp q"
    if "warpBubbleStrength p = warpBubbleStrength q"
    using that by (intro ext) (simp add: point2D_of_def y2D_def calculateWarpMetric_def Let_def)
  have b: "point3D_of Warp p = point3D_of Warp q"
    if "warpBubbleStrength p = warpBubbleStrength q" "rotationAngle p = rotationAngle q"
    using that by (intro ext) (simp add: point3D_of_def z3D_def calculateWarpMetric_def Let_def)
  show ?thesis using a b by (simp add: generate2DData_eq generate3DData_eq)
qed

theorem warp_mode_ignores_other_sliders_witness:
  "warpBubbleStrength \<lparr>timeValue = 1, tensorValue = 2, lambdaValue = 3,
         warpBubbleStrength = 4, rotationAngle = 90\<rparr>
     = warpBubbleStrength \<lparr>timeValue = - 5, tensorValue = 7, lambdaValue = - 1,
         warpBubbleStrength = 4, rotationAngle = 90\<rparr>
   \<and> rotationAngle \<lparr>timeValue = 1, tensorValue = 2, lambdaValue = 3,
         warpBubbleStrength = 4, rotationAngle = 90\<rparr>
     = rotationAngle \<lparr>timeValue = - 5, tensorValue = 7, lambdaValue = - 1,
         warpBubbleStrength = 4, rotationAngle = 90\<rparr>
   \<and> generate2DData Warp \<lparr>timeValue = 1, tensorValue = 2, lambdaValue = 3,
         warpBubbleStrength = 4, rotationAngle = 90\<rparr>
     = generate2DData Warp \<lparr>timeValue = - 5, tensorValue = 7, lambdaValue = - 1,
         warpBubbleStrength = 4, rotationAngle = 90\<rparr>
   \<and> generate3DData Warp \<lparr>timeValue = 1, tensorValue = 2, lambdaValue = 3,
         warpBubbleStrength = 4, rotationAngle = 90\<rparr>
     = generate3DData Warp \<lparr>timeValue = - 5, tensorValue = 7, lambdaValue = - 1,
         warpBubbleStrength = 4, rotationAngle = 90\<rparr>"
  using warp_mode_ignores_other_sliders [of "\<lparr>timeValue = 1, tensorValue = 2, lambdaValue = 3,
         warpBubbleStrength = 4, rotationAngle = 90\<rparr>" "\<lparr>timeValue = - 5, tensorValue = 7, lambdaValue = - 1,
         warpBubbleStrength = 4, rotationAngle = 90\<rparr>"]
  by simp

text \<open>
  Claim C10. The second version refines the first: for every \<open>t\<close> and \<open>T\<close>, in Time mode
  and in Tensor mode, the first version's \<open>generateData\<close> returns the same 21 records
  (the same \<open>x\<close> and the same formatted \<open>y\<close>) as the second version's \<open>generate2DData\<close>
  with \<open>lambda = 0\<close>.
\<close>

theorem version2_refines_version1:
  "generateData TimeMode t T
     = generate2DData Time \<lparr>timeValue = t, tensorValue = T, lambdaValue = 0,
         warpBubbleStrength = w, rotationAngle = r\<rparr>
   \<and> generateData TensorMode t T
     = generate2DData Tensor \<lparr>timeValue = t, tensorValue = T, lambdaValue = 0,
         warpBubbleStrength = w, rotationAngle = r\<rparr>
   \<and> length (generateData TimeMode t T) = 21 \<and> length (generateData TensorMode t T) = 21"
proof -
  have "point_v1 TimeMode t T = point2D_of Time \<lparr>timeValue = t, tensorValue = T, lambdaValue = 0,
         warpBubbleStrength = w, rotationAngle = r\<rparr>"
    by (intro ext) (simp add: point_v1_def point2D_of_def y_v1_def y2D_def Let_def)
  moreover have "point_v1 TensorMode t T = point2D_of Tensor \<lparr>timeValue = t, tensorValue = T, lambdaValue = 0,
         warpBubbleStrength = w, rotationAngle = r\<rparr>"
    by (intro ext) (simp add: point_v1_def point2D_of_def y_v1_def y2D_def Let_def)
  ultimately show ?thesis by (simp add: generateData_eq generate2DData_eq)
qed

end
